theory Spec2Isabelle
  imports Main "HOL-Library.Sublist" "HOL-Library.AList"
begin

section \<open>Values and exceptions\<close>

text \<open>
  The crawler of \<^verbatim>\<open>gucci.py\<close> works on parsed JSON. A Python \<^verbatim>\<open>dict\<close> keeps its keys
  in insertion order, so an object is an association list (with distinct keys, as every
  Python dictionary has); a JSON number is an integer here, the only kind of number the
  program reads.
\<close>

datatype json =
    JNull
  | JBool bool
  | JNum int
  | JStr string
  | JArr "json list"
  | JObj "(string \<times> json) list"

text \<open>
  The exceptions the program can raise; none of them is caught anywhere in the source, so
  each one ends the run. \<open>IllTyped\<close> is not a Python exception: it marks a value outside
  the type that the source declares for it with \<^verbatim>\<open>cast\<close>, at the two places where
  Python itself would go on with such a value (a product code that is a number, a boolean
  or null, and a store file that holds JSON other than an object). What the program does
  there is outside this development.
\<close>

datatype error =
    KeyError string
  | IndexError
  | TypeError
  | AttributeError
  | OSError
  | JSONDecodeError
  | IllTyped

text \<open>\<^verbatim>\<open>v[k]\<close> for a string key: only a dictionary can be read this way.\<close>

definition subscript :: "json \<Rightarrow> string \<Rightarrow> error + json" where
  "subscript v k =
     (case v of
        JObj kv \<Rightarrow> (case map_of kv k of None \<Rightarrow> Inl (KeyError k) | Some x \<Rightarrow> Inr x)
      | _ \<Rightarrow> Inl TypeError)"

text \<open>
  \<^verbatim>\<open>for x in v\<close>: a list gives its elements, a string its characters, a dictionary its keys;
  nothing else can be iterated.
\<close>

definition py_iter :: "json \<Rightarrow> error + json list" where
  "py_iter v =
     (case v of
        JArr xs \<Rightarrow> Inr xs
      | JStr s \<Rightarrow> Inr (map (\<lambda>c. JStr [c]) s)
      | JObj kv \<Rightarrow> Inr (map (\<lambda>p. JStr (fst p)) kv)
      | _ \<Rightarrow> Inl TypeError)"

definition py_len :: "json \<Rightarrow> error + nat" where
  "py_len v =
     (case v of
        JArr xs \<Rightarrow> Inr (length xs)
      | JStr s \<Rightarrow> Inr (length s)
      | JObj kv \<Rightarrow> Inr (length kv)
      | _ \<Rightarrow> Inl TypeError)"

text \<open>\<^verbatim>\<open>d.pop(k, None)\<close> and \<^verbatim>\<open>d.update(other)\<close>; \<^verbatim>\<open>d[k] = v\<close> is \<^const>\<open>AList.update\<close>.\<close>

definition dict_pop :: "string \<Rightarrow> (string \<times> json) list \<Rightarrow> (string \<times> json) list" where
  "dict_pop k d = AList.delete k d"

definition dict_update :: "(string \<times> json) list \<Rightarrow> (string \<times> json) list \<Rightarrow> (string \<times> json) list" where
  "dict_update d other = foldl (\<lambda>acc p. AList.update (fst p) (snd p) acc) d other"

text \<open>A list comprehension whose body can raise: the first exception wins.\<close>

fun map_result :: "('a \<Rightarrow> error + 'b) \<Rightarrow> 'a list \<Rightarrow> error + 'b list" where
  "map_result f [] = Inr []"
| "map_result f (x # xs) =
     (case f x of
        Inl e \<Rightarrow> Inl e
      | Inr y \<Rightarrow> (case map_result f xs of Inl e \<Rightarrow> Inl e | Inr ys \<Rightarrow> Inr (y # ys)))"

section \<open>Strings\<close>

text \<open>\<^verbatim>\<open>s.split(c)\<close> for a separator of one character: never empty.\<close>

fun split_on :: "char \<Rightarrow> string \<Rightarrow> string list" where
  "split_on c [] = [[]]"
| "split_on c (x # xs) =
     (if x = c then [] # split_on c xs
      else (case split_on c xs of [] \<Rightarrow> [[x]] | s # ss \<Rightarrow> (x # s) # ss))"

text \<open>
  \<^verbatim>\<open>s.replace(old, new)\<close>: every occurrence found by a scan from the left is replaced, and
  the scan goes on behind it. An empty \<open>old\<close> matches before every character and at the
  end.
\<close>

function (sequential) py_replace :: "string \<Rightarrow> string \<Rightarrow> string \<Rightarrow> string" where
  "py_replace old new [] = (if old = [] then new else [])"
| "py_replace old new (c # cs) =
     (if old = [] then new @ c # py_replace old new cs
      else if prefix old (c # cs) then new @ py_replace old new (drop (length old) (c # cs))
      else c # py_replace old new cs)"
  by pat_completeness auto
termination
  by (relation "measure (\<lambda>(old, new, s). length s)") auto

text \<open>\<^verbatim>\<open>str(page)\<close> for a page number.\<close>

definition digit_char :: "nat \<Rightarrow> char" where
  "digit_char d = char_of (48 + d)"

fun str_nat :: "nat \<Rightarrow> string" where
  "str_nat n = (if n < 10 then [digit_char n] else str_nat (n div 10) @ [digit_char (n mod 10)])"

declare str_nat.simps [simp del]

section \<open>Constants of the module\<close>

definition products_url :: "string \<Rightarrow> string \<Rightarrow> nat \<Rightarrow> string" where
  "products_url lang category page =
     ''https://www.gucci.com/'' @ lang @ ''/c/productgrid?categoryCode='' @ category
       @ ''&show=All&page='' @ str_nat page"

definition product_details_url :: "string \<Rightarrow> string" where
  "product_details_url product_code =
     ''https://prod-catalog-api.guccidigital.io/v1/products/'' @ product_code"

definition image_style :: string where
  "image_style = ''DarkGray_Center_0_0_2400x2400''"

section \<open>The normalizer of image URLs\<close>

text \<open>
  \<^verbatim>\<open>process_url\<close>: the fifth segment of the URL is the style; every occurrence of its text
  is replaced and \<^verbatim>\<open>https:\<close> is put in front. A URL with fewer than five segments raises.
\<close>

definition process_url :: "string \<Rightarrow> error + string" where
  "process_url url =
     (let segments = split_on CHR ''/'' url in
      if length segments \<le> 4 then Inl IndexError
      else (let style = segments ! 4 in Inr (''https:'' @ py_replace style image_style url)))"

text \<open>The name under which \<^verbatim>\<open>deduplicate_images\<close> remembers a URL.\<close>

definition dedup_filename :: "string \<Rightarrow> string" where
  "dedup_filename img =
     (let filename = last (split_on CHR ''/'' img) in
      if CHR ''-'' \<in> set filename then hd (split_on CHR ''-'' filename) @ ''.jpg'' else filename)"

text \<open>
  The loop of \<^verbatim>\<open>deduplicate_images\<close> over the two sets \<^verbatim>\<open>filenames\<close> and \<^verbatim>\<open>result\<close>.
  \<^verbatim>\<open>list(result)\<close> lists a Python set in an order that the language leaves open; the
  model lists it in the order of insertion, and every statement below is about the
  members of the result or their number only.
\<close>

fun dedup_loop :: "string list \<Rightarrow> string set \<Rightarrow> string list \<Rightarrow> string list" where
  "dedup_loop [] filenames result = result"
| "dedup_loop (img # images) filenames result =
     (let filename = dedup_filename img in
      if filename \<in> filenames then dedup_loop images filenames result
      else dedup_loop images (insert filename filenames) (result @ [img]))"

definition deduplicate_images :: "string list \<Rightarrow> string list" where
  "deduplicate_images images = dedup_loop images {} []"

section \<open>The world outside the program\<close>

text \<open>
  What \<^verbatim>\<open>requests.get\<close> hands back for a URL: whether the status is a success, the body as
  JSON (\<open>None\<close> when the body does not parse) and the body as the chunks that
  \<^verbatim>\<open>iter_content\<close> yields. The server is a fixed function from URLs to responses.
\<close>

record response =
  ok :: bool
  json_body :: "json option"
  chunks :: "string list"

type_synonym api = "string \<Rightarrow> response"

text \<open>
  Every request is recorded, by the place in the source that sends it: the page request of
  \<^verbatim>\<open>get_products\<close>, the request of \<^verbatim>\<open>get_product_details\<close>, the request of
  \<^verbatim>\<open>download\<close>.
\<close>

datatype request = PageReq string | DetailReq string | ImageReq string

text \<open>
  A file holds a JSON document or other bytes. Paths are strings, compared as they are;
  \<open>unwritable\<close> says where \<^verbatim>\<open>open(path, "w")\<close> and \<^verbatim>\<open>mkdir\<close> fail.
\<close>

datatype content = JsonDoc json | Raw string

datatype node = Dir | File content

record world =
  fs :: "(string \<times> node) list"
  unwritable :: "string \<Rightarrow> bool"
  net_log :: "request list"

definition sent :: "request \<Rightarrow> world \<Rightarrow> world" where
  "sent r w = w\<lparr>net_log := net_log w @ [r]\<rparr>"

definition path_exists :: "world \<Rightarrow> string \<Rightarrow> bool" where
  "path_exists w p = (map_of (fs w) p \<noteq> None)"

text \<open>
  Opening a path for writing and writing the whole content: fails on a directory and on
  an unwritable path.
\<close>

definition write_file :: "string \<Rightarrow> content \<Rightarrow> world \<Rightarrow> error + world" where
  "write_file p c w =
     (if unwritable w p \<or> map_of (fs w) p = Some Dir then Inl OSError
      else Inr (w\<lparr>fs := AList.update p (File c) (fs w)\<rparr>))"

text \<open>\<^verbatim>\<open>mkdir(parents=True, exist_ok=True)\<close>.\<close>

definition mkdir :: "string \<Rightarrow> world \<Rightarrow> error + world" where
  "mkdir p w =
     (case map_of (fs w) p of
        Some Dir \<Rightarrow> Inr w
      | Some (File c) \<Rightarrow> Inl OSError
      | None \<Rightarrow> if unwritable w p then Inl OSError
                else Inr (w\<lparr>fs := AList.update p Dir (fs w)\<rparr>))"

text \<open>
  \<^verbatim>\<open>dir / name\<close> of \<^verbatim>\<open>pathlib\<close>: an absolute name replaces the directory, an empty name or
  a dot leaves it.
\<close>

definition path_div :: "string \<Rightarrow> string \<Rightarrow> string" where
  "path_div d n =
     (if prefix ''/'' n then n
      else if n = [] \<or> n = ''.'' then d
      else d @ ''/'' @ n)"

text \<open>The name of \<open>p\<close> inside the directory \<open>d\<close>, when \<open>p\<close> lies directly in it.\<close>

definition child_name :: "string \<Rightarrow> string \<Rightarrow> string option" where
  "child_name d p =
     (if prefix (d @ ''/'') p
      then (let n = drop (length d + 1) p in
            if n \<noteq> [] \<and> CHR ''/'' \<notin> set n then Some n else None)
      else None)"

text \<open>\<^verbatim>\<open>list(product_dir.glob("*.jpg"))\<close>.\<close>

definition glob_jpg :: "world \<Rightarrow> string \<Rightarrow> string list" where
  "glob_jpg w d =
     filter (\<lambda>p. case child_name d p of None \<Rightarrow> False | Some n \<Rightarrow> suffix ''.jpg'' n)
       (map fst (fs w))"

section \<open>The fetcher and the downloader\<close>

text \<open>\<^verbatim>\<open>get\<close>: a dictionary or a list, or \<open>None\<close>.\<close>

definition get :: "api \<Rightarrow> string \<Rightarrow> json option" where
  "get server url =
     (let r = server url in
      if \<not> ok r then None
      else (case json_body r of
              None \<Rightarrow> None
            | Some (JObj kv) \<Rightarrow> Some (JObj kv)
            | Some (JArr xs) \<Rightarrow> Some (JArr xs)
            | Some _ \<Rightarrow> None))"

definition download :: "api \<Rightarrow> string \<Rightarrow> string \<Rightarrow> world \<Rightarrow> error + world" where
  "download server url path w =
     (if path_exists w path then Inr w
      else (let w1 = sent (ImageReq url) w; r = server url in
            if \<not> ok r then Inr w1
            else write_file path (Raw (concat (chunks r))) w1))"

section \<open>The class Gucci\<close>

record gucci =
  categories :: "string list"
  gucci_path :: string
  gucci_root :: string
  lang_code :: "string list"
  language :: string
  products :: "(string \<times> json) list"
  product_details :: bool
  initial_count :: nat

text \<open>
  \<^verbatim>\<open>__init__\<close>. The directory of the store, \<^verbatim>\<open>gucci_path.resolve().parent\<close>, depends on the
  working directory of the process and is given. \<^verbatim>\<open>json.load\<close> gives back the object that
  \<^verbatim>\<open>json.dump\<close> wrote.
\<close>

definition gucci_init ::
  "string \<Rightarrow> string \<Rightarrow> string list \<Rightarrow> string list \<Rightarrow> string \<Rightarrow> bool \<Rightarrow> world \<Rightarrow> error + gucci" where
  "gucci_init path root cats langs lang details w =
     (case (case map_of (fs w) path of
              None \<Rightarrow> Inr []
            | Some Dir \<Rightarrow> Inl OSError
            | Some (File (Raw b)) \<Rightarrow> Inl JSONDecodeError
            | Some (File (JsonDoc (JObj kv))) \<Rightarrow> Inr kv
            | Some (File (JsonDoc _)) \<Rightarrow> Inl IllTyped) of
        Inl e \<Rightarrow> Inl e
      | Inr loaded \<Rightarrow>
          Inr \<lparr>categories = cats, gucci_path = path, gucci_root = root, lang_code = langs,
               language = lang, products = loaded, product_details = details,
               initial_count = length loaded\<rparr>)"

subsection \<open>download\_images\<close>

text \<open>The inner loop: one download for each image of the product.\<close>

fun download_each :: "api \<Rightarrow> string \<Rightarrow> json list \<Rightarrow> world \<Rightarrow> error + world" where
  "download_each server product_dir [] w = Inr w"
| "download_each server product_dir (img # images) w =
     (case img of
        JStr url \<Rightarrow>
          (let filename = last (split_on CHR ''/'' url);
               image_path = path_div product_dir filename in
           case download server url image_path w of
             Inl e \<Rightarrow> Inl e
           | Inr w' \<Rightarrow> download_each server product_dir images w')
      | _ \<Rightarrow> Inl AttributeError)"

text \<open>The body of the outer loop, for one stored product.\<close>

definition download_product :: "api \<Rightarrow> gucci \<Rightarrow> json \<Rightarrow> world \<Rightarrow> error + world" where
  "download_product server g product w =
     (case subscript product ''productCode'' of
        Inl e \<Rightarrow> Inl e
      | Inr (JStr product_code) \<Rightarrow>
          (let product_dir = path_div (gucci_root g) product_code in
           case mkdir product_dir w of
             Inl e \<Rightarrow> Inl e
           | Inr w1 \<Rightarrow>
               (case subscript product ''images'' of
                  Inl e \<Rightarrow> Inl e
                | Inr images \<Rightarrow>
                    (case py_len images of
                       Inl e \<Rightarrow> Inl e
                     | Inr number_of_images \<Rightarrow>
                         if path_exists w1 product_dir
                            \<and> length (glob_jpg w1 product_dir) = number_of_images
                         then Inr w1
                         else (case py_iter images of
                                 Inl e \<Rightarrow> Inl e
                               | Inr xs \<Rightarrow> download_each server product_dir xs w1))))
      | Inr _ \<Rightarrow> Inl TypeError)"

fun download_loop :: "api \<Rightarrow> gucci \<Rightarrow> json list \<Rightarrow> world \<Rightarrow> error + world" where
  "download_loop server g [] w = Inr w"
| "download_loop server g (product # rest) w =
     (case download_product server g product w of
        Inl e \<Rightarrow> Inl e
      | Inr w' \<Rightarrow> download_loop server g rest w')"

definition download_images :: "api \<Rightarrow> gucci \<Rightarrow> world \<Rightarrow> error + world" where
  "download_images server g w = download_loop server g (map snd (products g)) w"

subsection \<open>get\_product\_details\<close>

definition detail_drop_keys :: "string list" where
  "detail_drop_keys =
     [''assortments'', ''availability'', ''categories'', ''status'', ''variants'', ''project'',
      ''prices'', ''lastUpdated'', ''exotic'', ''genders'', ''materialCare'', ''styleCode'',
      ''language'', ''madeIn'', ''translations'']"

definition rename :: "(string \<times> string) list" where
  "rename =
     [(''editorialDescription'', ''editorial''),
      (''variationDescription'', ''variation''),
      (''departmentDescription'', ''department''),
      (''subDepartmentDescription'', ''subDepartment''),
      (''seasonDescription'', ''season''),
      (''detailParts'', ''details'')]"

text \<open>\<^verbatim>\<open>rename.get(k, k)\<close>.\<close>

definition rename_get :: "string \<Rightarrow> string" where
  "rename_get k = (case map_of rename k of None \<Rightarrow> k | Some k' \<Rightarrow> k')"

text \<open>
  The loop over the translations: an entry of the target language is merged into the
  record. \<^verbatim>\<open>translation.get\<close> needs a dictionary.
\<close>

fun merge_translations ::
  "string \<Rightarrow> json list \<Rightarrow> (string \<times> json) list \<Rightarrow> error + (string \<times> json) list" where
  "merge_translations lang [] data = Inr data"
| "merge_translations lang (translation # rest) data =
     (case translation of
        JObj tr \<Rightarrow>
          (let l = (case map_of tr ''language'' of None \<Rightarrow> JStr [] | Some v \<Rightarrow> v) in
           if l = JStr lang then merge_translations lang rest (dict_update data tr)
           else merge_translations lang rest data)
      | _ \<Rightarrow> Inl AttributeError)"

text \<open>
  The dictionary comprehension
  \<^verbatim>\<open>{rename.get(k, k): v for k, v in data.items() if k not in drop_keys}\<close>: the items are
  entered in order, so of two items that get the same name the later one gives the value.
\<close>

definition rename_and_drop :: "(string \<times> json) list \<Rightarrow> (string \<times> json) list" where
  "rename_and_drop data =
     foldl (\<lambda>acc p. if fst p \<in> set detail_drop_keys then acc
                     else AList.update (rename_get (fst p)) (snd p) acc) [] data"

definition get_product_details ::
  "api \<Rightarrow> gucci \<Rightarrow> string \<Rightarrow> world \<Rightarrow> error + (string \<times> json) list \<times> world" where
  "get_product_details server g product_code w =
     (let url = product_details_url product_code; w1 = sent (DetailReq url) w in
      case get server url of
        None \<Rightarrow> Inr ([], w1)
      | Some (JObj data) \<Rightarrow>
          (let translations = (case map_of data ''translations'' of None \<Rightarrow> JArr [] | Some t \<Rightarrow> t) in
           case py_iter translations of
             Inl e \<Rightarrow> Inl e
           | Inr ts \<Rightarrow>
               (case merge_translations (language g) ts data of
                  Inl e \<Rightarrow> Inl e
                | Inr merged \<Rightarrow>
                    Inr (fold dict_pop (map fst rename) (rename_and_drop merged), w1)))
      | Some _ \<Rightarrow> Inl AttributeError)"

subsection \<open>get\_products\<close>

definition process_images :: "(string \<times> json) list \<Rightarrow> error + string list" where
  "process_images product =
     (case map_of product ''primaryImage'' of
        None \<Rightarrow> Inl (KeyError ''primaryImage'')
      | Some primary_image \<Rightarrow>
     (case map_of product ''alternateGalleryImages'' of
        None \<Rightarrow> Inl (KeyError ''alternateGalleryImages'')
      | Some alternate_gallery_images \<Rightarrow>
     (case map_of product ''alternateImage'' of
        None \<Rightarrow> Inl (KeyError ''alternateImage'')
      | Some alternate_image \<Rightarrow>
     (case py_iter alternate_gallery_images of
        Inl e \<Rightarrow> Inl e
      | Inr gallery \<Rightarrow>
     (case map_result (\<lambda>i. subscript i ''src'') gallery of
        Inl e \<Rightarrow> Inl e
      | Inr images \<Rightarrow>
     (case subscript primary_image ''src'' of
        Inl e \<Rightarrow> Inl e
      | Inr primary_src \<Rightarrow>
     (case subscript alternate_image ''src'' of
        Inl e \<Rightarrow> Inl e
      | Inr alternate_src \<Rightarrow>
     (case map_result (\<lambda>i. case i of JStr url \<Rightarrow> process_url url | _ \<Rightarrow> Inl AttributeError)
             (images @ [primary_src, alternate_src]) of
        Inl e \<Rightarrow> Inl e
      | Inr urls \<Rightarrow> Inr (deduplicate_images urls)))))))))"

definition drop_keys :: "string list" where
  "drop_keys =
     [''showOutOfStockLabel'', ''showAvailableInStoreOnlyLabel'', ''videoBackgroundImage'',
      ''zoomImagePrimary'', ''zoomImageAlternate'', ''filterType'', ''nonTransactionalWebSite'',
      ''isDiyProduct'', ''inStockEntry'', ''inStoreStockEntry'', ''inStoreStockRegionalEntry'',
      ''visibleWithoutStock'', ''showSavedItemIcon'', ''type'', ''saleType'', ''fullPrice'',
      ''position'', ''isFavorite'', ''isOnlineExclusive'', ''isRegionalOnlineExclusive'',
      ''regionalOnlineExclusiveMsg'', ''isExclusiveSale'', ''label'', ''imgBase'',
      ''productName'', ''primaryImage'', ''alternateImage'', ''alternateGalleryImages'']"

text \<open>
  The body of the loop over the items of a page. A product code that is a list or a
  dictionary cannot be looked up in the store (it is not hashable).
\<close>

definition process_product :: "api \<Rightarrow> json \<Rightarrow> gucci \<Rightarrow> world \<Rightarrow> error + gucci \<times> world" where
  "process_product server item g w =
     (case item of
        JObj product \<Rightarrow>
          (case map_of product ''productCode'' of
             None \<Rightarrow> Inl (KeyError ''productCode'')
           | Some (JStr product_code) \<Rightarrow>
               if map_of (products g) product_code \<noteq> None then Inr (g, w)
               else
                 (case process_images product of
                    Inl e \<Rightarrow> Inl e
                  | Inr images \<Rightarrow>
                      (let product1 = AList.update ''images'' (JArr (map JStr images)) product;
                           product2 = fold dict_pop drop_keys product1 in
                       if product_details g then
                         (case get_product_details server g product_code w of
                            Inl e \<Rightarrow> Inl e
                          | Inr (details, w') \<Rightarrow>
                              Inr (g\<lparr>products := AList.update product_code
                                        (JObj (dict_update product2 details)) (products g)\<rparr>, w'))
                       else
                         Inr (g\<lparr>products := AList.update product_code (JObj product2)
                                   (products g)\<rparr>, w)))
           | Some (JArr xs) \<Rightarrow> Inl TypeError
           | Some (JObj kv) \<Rightarrow> Inl TypeError
           | Some _ \<Rightarrow> Inl IllTyped)
      | _ \<Rightarrow> Inl TypeError)"

fun process_items :: "api \<Rightarrow> json list \<Rightarrow> gucci \<Rightarrow> world \<Rightarrow> error + gucci \<times> world" where
  "process_items server [] g w = Inr (g, w)"
| "process_items server (item # rest) g w =
     (case process_product server item g w of
        Inl e \<Rightarrow> Inl e
      | Inr (g', w') \<Rightarrow> process_items server rest g' w')"

text \<open>
  \<^verbatim>\<open>page < number_of_pages\<close>, with the number of pages as the last response gave it: a
  boolean counts as 0 or 1, anything but a number cannot be compared with an integer.
\<close>

definition page_before :: "nat \<Rightarrow> json \<Rightarrow> error + bool" where
  "page_before page number_of_pages =
     (case number_of_pages of
        JNum n \<Rightarrow> Inr (int page < n)
      | JBool b \<Rightarrow> Inr (int page < (if b then 1 else 0))
      | _ \<Rightarrow> Inl TypeError)"

text \<open>
  One round of the \<^verbatim>\<open>while\<close> loop on the state (page, number of pages, object, world):
  \<open>Inl\<close> is the end of the loop, by its condition, by a \<^verbatim>\<open>break\<close> or by an exception;
  \<open>Inr\<close> is the state of the next round.
\<close>

definition page_step ::
  "api \<Rightarrow> string \<Rightarrow> string \<Rightarrow> nat \<times> json \<times> gucci \<times> world
     \<Rightarrow> (error + gucci \<times> world) + (nat \<times> json \<times> gucci \<times> world)" where
  "page_step server category_code lang s =
     (case s of (page, number_of_pages, g, w) \<Rightarrow>
      (case page_before page number_of_pages of
         Inl e \<Rightarrow> Inl (Inl e)
       | Inr False \<Rightarrow> Inl (Inr (g, w))
       | Inr True \<Rightarrow>
           (let url = products_url lang category_code page; w1 = sent (PageReq url) w in
            case get server url of
              None \<Rightarrow> Inl (Inr (g, w1))
            | Some data \<Rightarrow>
                (case subscript data ''numberOfPages'' of
                   Inl e \<Rightarrow> Inl (Inl e)
                 | Inr number_of_pages' \<Rightarrow>
                (case subscript data ''products'' of
                   Inl e \<Rightarrow> Inl (Inl e)
                 | Inr prods \<Rightarrow>
                (case subscript prods ''items'' of
                   Inl e \<Rightarrow> Inl (Inl e)
                 | Inr items \<Rightarrow>
                (case py_len items of
                   Inl e \<Rightarrow> Inl (Inl e)
                 | Inr count \<Rightarrow>
                     if count = 0 then Inl (Inr (g, w1))
                     else
                       (case py_iter items of
                          Inl e \<Rightarrow> Inl (Inl e)
                        | Inr xs \<Rightarrow>
                            (case process_items server xs g w1 of
                               Inl e \<Rightarrow> Inl (Inl e)
                             | Inr (g', w') \<Rightarrow>
                                 Inr (page + 1, number_of_pages', g', w'))))))))))"

text \<open>
  The loop itself. The server decides how many pages there are, and may go on saying
  that there is one more: \<open>None\<close> is a loop that never ends.
\<close>

partial_function (option) page_loop ::
  "api \<Rightarrow> string \<Rightarrow> string \<Rightarrow> nat \<times> json \<times> gucci \<times> world \<Rightarrow> (error + gucci \<times> world) option" where
  "page_loop server category_code lang s =
     (case page_step server category_code lang s of
        Inl r \<Rightarrow> Some r
      | Inr s' \<Rightarrow> page_loop server category_code lang s')"

definition get_products ::
  "api \<Rightarrow> string \<Rightarrow> string \<Rightarrow> gucci \<Rightarrow> world \<Rightarrow> (error + gucci \<times> world) option" where
  "get_products server category_code lang g w =
     (if category_code \<notin> set (categories g) then Some (Inr (g, w))
      else page_loop server category_code lang (0, JNum 1, g, w))"

subsection \<open>save and run\<close>

definition save :: "gucci \<Rightarrow> string option \<Rightarrow> world \<Rightarrow> error + world" where
  "save g save_path w =
     (let path = (case save_path of None \<Rightarrow> gucci_path g | Some p \<Rightarrow> p) in
      write_file path (JsonDoc (JObj (products g))) w)"

text \<open>The number that \<^verbatim>\<open>save\<close> reports as added.\<close>

definition added :: "gucci \<Rightarrow> int" where
  "added g = int (length (products g)) - int (initial_count g)"

fun run_categories ::
  "api \<Rightarrow> string \<Rightarrow> string list \<Rightarrow> gucci \<Rightarrow> world \<Rightarrow> (error + gucci \<times> world) option" where
  "run_categories server lang [] g w = Some (Inr (g, w))"
| "run_categories server lang (category # rest) g w =
     (case get_products server category lang g w of
        None \<Rightarrow> None
      | Some (Inl e) \<Rightarrow> Some (Inl e)
      | Some (Inr (g', w')) \<Rightarrow> run_categories server lang rest g' w')"

fun run_languages ::
  "api \<Rightarrow> string list \<Rightarrow> gucci \<Rightarrow> world \<Rightarrow> (error + gucci \<times> world) option" where
  "run_languages server [] g w = Some (Inr (g, w))"
| "run_languages server (lang # rest) g w =
     (case run_categories server lang (categories g) g w of
        None \<Rightarrow> None
      | Some (Inl e) \<Rightarrow> Some (Inl e)
      | Some (Inr (g', w')) \<Rightarrow> run_languages server rest g' w')"

text \<open>The crawl of \<^verbatim>\<open>run\<close>, and \<^verbatim>\<open>run\<close>: the crawl, then \<^verbatim>\<open>save\<close>.\<close>

definition crawl :: "api \<Rightarrow> gucci \<Rightarrow> world \<Rightarrow> (error + gucci \<times> world) option" where
  "crawl server g w = run_languages server (lang_code g) g w"

definition run :: "api \<Rightarrow> gucci \<Rightarrow> string option \<Rightarrow> world \<Rightarrow> (error + gucci \<times> world) option" where
  "run server g save_path w =
     (case crawl server g w of
        None \<Rightarrow> None
      | Some (Inl e) \<Rightarrow> Some (Inl e)
      | Some (Inr (g', w')) \<Rightarrow>
          (case save g' save_path w' of
             Inl e \<Rightarrow> Some (Inl e)
           | Inr w'' \<Rightarrow> Some (Inr (g', w''))))"

text \<open>The command: one of the two modes on a fresh object.\<close>

definition main ::
  "api \<Rightarrow> string \<Rightarrow> string \<Rightarrow> string list \<Rightarrow> string list \<Rightarrow> string \<Rightarrow> bool \<Rightarrow> string option
     \<Rightarrow> bool \<Rightarrow> world \<Rightarrow> (error + gucci \<times> world) option" where
  "main server path root cats langs lang details save_path images_mode w =
     (case gucci_init path root cats langs lang details w of
        Inl e \<Rightarrow> Some (Inl e)
      | Inr g \<Rightarrow>
          if images_mode
          then (case download_images server g w of
                  Inl e \<Rightarrow> Some (Inl e)
                | Inr w' \<Rightarrow> Some (Inr (g, w')))
          else run server g save_path w)"

section \<open>Properties\<close>

lemma split_on_nonempty: "split_on c s \<noteq> []"
  by (induction s) (auto split: list.splits)

text \<open>
  C4. The scheme-relative URL \<^verbatim>\<open>//assets.example.com/media/STYLE123/large/img.jpg\<close> is
  rewritten to \<^verbatim>\<open>https://assets.example.com/media/DarkGray_Center_0_0_2400x2400/large/img.jpg\<close>:
  the style segment is replaced by the constant and the scheme is put in front.
\<close>

theorem process_url_example:
  "process_url ''//assets.example.com/media/STYLE123/large/img.jpg''
     = Inr ''https://assets.example.com/media/DarkGray_Center_0_0_2400x2400/large/img.jpg''"
  by (simp add: process_url_def image_style_def)

end
